theory Spec2Isabelle
  imports Main "HOL-Library.Sublist" "HOL-Library.AList"
begin

section \<open>python\_blackbox: Python-level blocking of outbound network access\<close>

text \<open>
  A shallow embedding of \<^verbatim>\<open>python_blackbox.py\<close>. The module keeps four globals
  (\<^verbatim>\<open>_ORIG\<close>, \<^verbatim>\<open>_BLOCKED\<close>, \<^verbatim>\<open>_WHITELIST\<close>, \<^verbatim>\<open>_DEBUG\<close>) and rebinds attributes of
  other modules (\<^verbatim>\<open>socket.create_connection\<close>, \<^verbatim>\<open>urllib.request.urlopen\<close>, ...). Both
  are fields of one record that every operation takes and returns. A leading underscore
  is not part of an Isabelle name, so \<^verbatim>\<open>_ORIG\<close> is \<open>ORIG\<close>, \<^verbatim>\<open>_host_allowed\<close> is
  \<open>host_allowed\<close>, and so on; a dot in an attribute path is written as an underscore.
\<close>

subsection \<open>Strings\<close>

text \<open>
  A Python \<^verbatim>\<open>str\<close> is a sequence of code points; \<^typ>\<open>char\<close> holds the code points
  0 to 255 (Latin-1), which covers every host name, IP literal and punycode label.
  On these, \<^verbatim>\<open>str.lower\<close> works character by character: the upper-case letters are
  A to Z (65 to 90) and the accented capitals 192 to 214 and 216 to 222, each 32 below
  its lower-case letter. Beyond code point 255 \<^verbatim>\<open>str.lower\<close> is not a map of single
  characters (a capital sigma becomes one of two letters, by its position in the word);
  such strings are not strings of this theory, and every statement about \<open>lower\<close> is a
  statement about hosts and whitelist entries of code points 0 to 255.
\<close>

definition lower_char :: "char \<Rightarrow> char" where
  "lower_char c =
     (let n = (of_char c :: nat) in
      if (65 \<le> n \<and> n \<le> 90) \<or> (192 \<le> n \<and> n \<le> 214) \<or> (216 \<le> n \<and> n \<le> 222)
      then char_of (n + 32) else c)"

definition lower :: "string \<Rightarrow> string" where
  "lower h = map lower_char h"

text \<open>\<^verbatim>\<open>str(n)\<close> for an integer, as the f-string of the denial message formats a port.\<close>

fun str_nat :: "nat \<Rightarrow> string" where
  "str_nat n =
     (if n < 10 then [char_of (48 + n)]
      else str_nat (n div 10) @ [char_of (48 + n mod 10)])"

definition str_int :: "int \<Rightarrow> string" where
  "str_int i = (if i < 0 then CHR ''-'' # str_nat (nat (- i)) else str_nat (nat i))"

text \<open>A host is a string or \<^verbatim>\<open>None\<close>; an f-string prints \<^verbatim>\<open>None\<close> as its name.\<close>

definition str_host :: "string option \<Rightarrow> string" where
  "str_host host = (case host of None \<Rightarrow> ''None'' | Some h \<Rightarrow> h)"

subsection \<open>The module's state\<close>

text \<open>
  A handle is a callable that an attribute can be bound to: the implementation the
  interpreter started with (named by its attribute path), or one of the module's own
  replacements.
\<close>

datatype handle =
    Original string
  | BlockedSocket
  | Blocked_create_connection
  | Blocked_http_connect
  | Blocked_urlopen
  | Blocked_requests_request

datatype error = NetworkBlockedError string | KeyError string

text \<open>
  What a call of an entry point comes to: an exception of this module, or a call of a
  handle with the given arguments (whose own result is outside this module).
\<close>

datatype 'a outcome = Raise error | Delegate handle 'a

text \<open>
  \<open>ORIG\<close> is a \<^verbatim>\<open>dict\<close>: an association list in insertion order, which is the order
  \<^verbatim>\<open>items()\<close> yields. \<open>ssl_SSLContext_wrap_socket\<close> is \<open>None\<close> when
  \<^verbatim>\<open>hasattr(ssl, 'SSLContext')\<close> is false, and \<open>requests_Session_request\<close> is \<open>None\<close>
  when the import of \<^verbatim>\<open>requests\<close> failed (\<^verbatim>\<open>requests is None\<close>). \<open>stdout\<close> holds the
  lines printed by \<^verbatim>\<open>_log\<close>.
\<close>

record state =
  ORIG :: "(string \<times> handle) list"
  BLOCKED :: bool
  WHITELIST :: "string set"
  DEBUG :: bool
  socket_socket :: handle
  socket_create_connection :: handle
  urllib_request_urlopen :: handle
  http_client_HTTPConnection_connect :: handle
  ssl_SSLContext_wrap_socket :: "handle option"
  requests_Session_request :: "handle option"
  stdout :: "string list"

definition set_debug :: "bool \<Rightarrow> state \<Rightarrow> state" where
  "set_debug enabled s = s\<lparr>DEBUG := enabled\<rparr>"

definition log_debug :: "state \<Rightarrow> string \<Rightarrow> state" where
  "log_debug s msg =
     (if DEBUG s then s\<lparr>stdout := stdout s @ [''[python_blackbox DEBUG] '' @ msg]\<rparr> else s)"

subsection \<open>Host matching\<close>

text \<open>
  \<^verbatim>\<open>_host_allowed\<close>. \<^verbatim>\<open>not host\<close> holds for \<^verbatim>\<open>None\<close> and for the empty string.
  \<^verbatim>\<open>host.split(":", 1)[0]\<close> is the part before the first colon. The loop over the set
  returns at the first entry that matches, with a log line that does not depend on the
  entry, so its result is that of an existential over the set.
\<close>

definition host_allowed :: "state \<Rightarrow> string option \<Rightarrow> bool \<times> state" where
  "host_allowed s host =
     (case host of
        None \<Rightarrow> (False, s)
      | Some h0 \<Rightarrow>
          if h0 = [] then (False, s)
          else
            let h1 = (if CHR '':'' \<in> set h0 then takeWhile (\<lambda>c. c \<noteq> CHR '':'') h0 else h0);
                h = lower h1
            in if \<exists>w \<in> WHITELIST s. h = w \<or> suffix (''.'' @ w) h
               then (True, log_debug s (''Allowing access to whitelisted host '' @ h))
               else if h \<in> {''localhost'', ''127.0.0.1'', ''::1''}
               then (True, log_debug s (''Allowing access to localhost '' @ h))
               else (False, log_debug s (''Blocking host '' @ h)))"

subsection \<open>The replacements\<close>

text \<open>\<^verbatim>\<open>_BlockedSocket.__init__\<close> raises for every argument list.\<close>

definition BlockedSocket_init :: "'a \<Rightarrow> 'a outcome" where
  "BlockedSocket_init args = Raise (NetworkBlockedError ''Network access blocked by python_blackbox'')"

text \<open>
  \<^verbatim>\<open>_blocked_create_connection\<close>. The subscript \<^verbatim>\<open>_ORIG['socket.create_connection']\<close>
  raises \<^verbatim>\<open>KeyError\<close> when the key is absent.
\<close>

definition blocked_create_connection ::
  "state \<Rightarrow> string option \<times> int \<Rightarrow> 't \<Rightarrow> 'a \<Rightarrow> ((string option \<times> int) \<times> 't \<times> 'a) outcome \<times> state" where
  "blocked_create_connection s address timeout source_address =
     (let (host, port) = address;
          (allowed, s') = host_allowed s host
      in if allowed then
           (case map_of (ORIG s') ''socket.create_connection'' of
              None \<Rightarrow> (Raise (KeyError ''socket.create_connection''), s')
            | Some f \<Rightarrow> (Delegate f (address, timeout, source_address), s'))
         else
           (Raise (NetworkBlockedError
              (''Attempt to connect to '' @ str_host host @ '':'' @ str_int port @
               '' blocked by python_blackbox'')), s'))"

text \<open>
  A caller's \<^verbatim>\<open>socket.create_connection(address, timeout, source_address)\<close> and
  \<^verbatim>\<open>socket.socket(...)\<close> run whatever the attribute is bound to at that moment.
\<close>

definition socket_create_connection_call ::
  "state \<Rightarrow> string option \<times> int \<Rightarrow> 't \<Rightarrow> 'a \<Rightarrow> ((string option \<times> int) \<times> 't \<times> 'a) outcome \<times> state" where
  "socket_create_connection_call s address timeout source_address =
     (case socket_create_connection s of
        Blocked_create_connection \<Rightarrow> blocked_create_connection s address timeout source_address
      | f \<Rightarrow> (Delegate f (address, timeout, source_address), s))"

definition socket_socket_call :: "state \<Rightarrow> 'a \<Rightarrow> 'a outcome" where
  "socket_socket_call s args =
     (case socket_socket s of
        BlockedSocket \<Rightarrow> BlockedSocket_init args
      | f \<Rightarrow> Delegate f args)"

subsection \<open>Enabling and disabling\<close>

text \<open>
  \<^verbatim>\<open>block_network\<close>, statement by statement. A subscript assignment to a \<^verbatim>\<open>dict\<close>
  replaces the value of a key in place or appends a new key, as \<open>AList.update\<close> does.
\<close>

definition block_network :: "state \<Rightarrow> state" where
  "block_network s =
     (if BLOCKED s then s
      else
        let s1 = s\<lparr>ORIG := AList.update ''socket.socket'' (socket_socket s) (ORIG s)\<rparr>;
            s2 = s1\<lparr>ORIG := AList.update ''socket.create_connection''
                               (socket_create_connection s1) (ORIG s1)\<rparr>;
            s3 = s2\<lparr>ORIG := AList.update ''urllib.request.urlopen''
                               (urllib_request_urlopen s2) (ORIG s2)\<rparr>;
            s4 = s3\<lparr>ORIG := AList.update ''http.client.HTTPConnection.connect''
                               (http_client_HTTPConnection_connect s3) (ORIG s3)\<rparr>;
            s5 = s4\<lparr>socket_create_connection := Blocked_create_connection\<rparr>;
            s6 = s5\<lparr>urllib_request_urlopen := Blocked_urlopen\<rparr>;
            s7 = s6\<lparr>http_client_HTTPConnection_connect := Blocked_http_connect\<rparr>;
            s8 = (case requests_Session_request s7 of
                    None \<Rightarrow> s7
                  | Some f \<Rightarrow>
                      s7\<lparr>ORIG := AList.update ''requests.Session.request'' f (ORIG s7),
                         requests_Session_request := Some Blocked_requests_request\<rparr>)
        in s8\<lparr>BLOCKED := True\<rparr>)"

text \<open>The body of the loop of \<^verbatim>\<open>allow_network\<close>: one item of \<^verbatim>\<open>_ORIG\<close>.\<close>

fun restore :: "string \<times> handle \<Rightarrow> state \<Rightarrow> state" where
  "restore (k, v) s =
     (if k = ''socket.socket'' then s\<lparr>socket_socket := v\<rparr>
      else if k = ''socket.create_connection'' then s\<lparr>socket_create_connection := v\<rparr>
      else if k = ''urllib.request.urlopen'' then s\<lparr>urllib_request_urlopen := v\<rparr>
      else if k = ''http.client.HTTPConnection.connect''
        then s\<lparr>http_client_HTTPConnection_connect := v\<rparr>
      else if k = ''ssl.SSLContext.wrap_socket'' \<and> ssl_SSLContext_wrap_socket s \<noteq> None
        then s\<lparr>ssl_SSLContext_wrap_socket := Some v\<rparr>
      else if k = ''requests.Session.request'' \<and> requests_Session_request s \<noteq> None
        then s\<lparr>requests_Session_request := Some v\<rparr>
      else s)"

definition allow_network :: "state \<Rightarrow> state" where
  "allow_network s =
     (if \<not> BLOCKED s then s
      else (fold restore (ORIG s) s)\<lparr>ORIG := [], BLOCKED := False\<rparr>)"

definition is_blocked :: "state \<Rightarrow> bool" where
  "is_blocked s = BLOCKED s"

subsection \<open>The temporary-allow context manager\<close>

text \<open>
  \<^verbatim>\<open>allow_temporary\<close> is a generator under \<^verbatim>\<open>@contextmanager\<close>: the code before
  \<^verbatim>\<open>yield\<close> runs on entry, the \<^verbatim>\<open>finally\<close> clause runs on exit, whether the block
  returned or raised. The block is any state transformer that also says whether it
  raised (\<open>Some e\<close>) or returned (\<open>None\<close>); an exception passes through the guard.
\<close>

definition allow_temporary_enter :: "state \<Rightarrow> bool \<times> state" where
  "allow_temporary_enter s =
     (let s1 = log_debug s ''Entering allow_temporary context'';
          was_blocked = is_blocked s1
      in (was_blocked, if was_blocked then allow_network s1 else s1))"

definition allow_temporary_exit :: "bool \<Rightarrow> state \<Rightarrow> state" where
  "allow_temporary_exit was_blocked s = (if was_blocked then block_network s else s)"

definition allow_temporary :: "(state \<Rightarrow> 'e option \<times> state) \<Rightarrow> state \<Rightarrow> 'e option \<times> state" where
  "allow_temporary body s =
     (let (was_blocked, s1) = allow_temporary_enter s;
          (r, s2) = body s1
      in (r, allow_temporary_exit was_blocked s2))"

subsection \<open>The whitelist\<close>

definition add_whitelist :: "string \<Rightarrow> state \<Rightarrow> state" where
  "add_whitelist host_or_domain s =
     log_debug (s\<lparr>WHITELIST := insert host_or_domain (WHITELIST s)\<rparr>)
       (''Host/domain added to whitelist: '' @ host_or_domain)"

definition remove_whitelist :: "string \<Rightarrow> state \<Rightarrow> state" where
  "remove_whitelist host_or_domain s =
     log_debug (s\<lparr>WHITELIST := WHITELIST s - {host_or_domain}\<rparr>)
       (''Host/domain removed from whitelist: '' @ host_or_domain)"

subsection \<open>Loading the module\<close>

text \<open>
  The globals as the module body first binds them. The parameters are what the
  interpreter offers: whether \<^verbatim>\<open>requests\<close> can be imported, whether \<^verbatim>\<open>ssl\<close> has
  \<^verbatim>\<open>SSLContext\<close>, and the value of \<^verbatim>\<open>PYTHON_BLACKBOX_DEBUG\<close> (empty when unset).
\<close>

definition initial :: "bool \<Rightarrow> bool \<Rightarrow> string \<Rightarrow> state" where
  "initial have_requests have_sslcontext env_debug =
     \<lparr>ORIG = [],
      BLOCKED = False,
      WHITELIST = {},
      DEBUG = (env_debug \<in> {''1'', ''true'', ''True''}),
      socket_socket = Original ''socket.socket'',
      socket_create_connection = Original ''socket.create_connection'',
      urllib_request_urlopen = Original ''urllib.request.urlopen'',
      http_client_HTTPConnection_connect = Original ''http.client.HTTPConnection.connect'',
      ssl_SSLContext_wrap_socket =
        (if have_sslcontext then Some (Original ''ssl.SSLContext.wrap_socket'') else None),
      requests_Session_request =
        (if have_requests then Some (Original ''requests.Session.request'') else None),
      stdout = []\<rparr>"

text \<open>The end of the module body: block unless \<^verbatim>\<open>PYTHON_BLACKBOX_NOAUTO\<close> says not to.\<close>

definition import_module :: "bool \<Rightarrow> bool \<Rightarrow> string \<Rightarrow> string \<Rightarrow> state" where
  "import_module have_requests have_sslcontext env_debug env_noauto =
     (let s = initial have_requests have_sslcontext env_debug
      in if env_noauto \<in> {''1'', ''true'', ''True''} then s
         else log_debug (block_network s) ''Network access blocked on import.'')"

subsection \<open>Client programs\<close>

text \<open>
  A client of the module runs a sequence of calls of its public operations; a
  \<^verbatim>\<open>with allow_temporary():\<close> block holds such a sequence again. \<open>Raise_error\<close> is a
  statement of the client that raises: it ends the sequence it stands in, and every
  sequence around it, after the guards on the way have run their exit code.
\<close>

datatype cmd =
    Block_network
  | Allow_network
  | Set_debug bool
  | Add_whitelist string
  | Remove_whitelist string
  | Allow_temporary "cmd list"
  | Raise_error string

fun exec :: "cmd \<Rightarrow> state \<Rightarrow> string option \<times> state"
  and exec_all :: "cmd list \<Rightarrow> state \<Rightarrow> string option \<times> state" where
  "exec Block_network s = (None, block_network s)"
| "exec Allow_network s = (None, allow_network s)"
| "exec (Set_debug b) s = (None, set_debug b s)"
| "exec (Add_whitelist h) s = (None, add_whitelist h s)"
| "exec (Remove_whitelist h) s = (None, remove_whitelist h s)"
| "exec (Allow_temporary body) s = allow_temporary (exec_all body) s"
| "exec (Raise_error e) s = (Some e, s)"
| "exec_all [] s = (None, s)"
| "exec_all (c # cs) s =
     (case exec c s of
        (None, s') \<Rightarrow> exec_all cs s'
      | (Some e, s') \<Rightarrow> (Some e, s'))"

subsection \<open>Auxiliary notions for the statements\<close>

text \<open>
  The attribute a key of \<^verbatim>\<open>_ORIG\<close> names, read by its path: \<open>None\<close> when the path
  names nothing (an absent \<^verbatim>\<open>requests\<close> or \<^verbatim>\<open>SSLContext\<close>, or a string that is not one of
  the six paths).
\<close>

definition getattr_path :: "string \<Rightarrow> state \<Rightarrow> handle option" where
  "getattr_path k s =
     (if k = ''socket.socket'' then Some (socket_socket s)
      else if k = ''socket.create_connection'' then Some (socket_create_connection s)
      else if k = ''urllib.request.urlopen'' then Some (urllib_request_urlopen s)
      else if k = ''http.client.HTTPConnection.connect''
        then Some (http_client_HTTPConnection_connect s)
      else if k = ''ssl.SSLContext.wrap_socket'' then ssl_SSLContext_wrap_socket s
      else if k = ''requests.Session.request'' then requests_Session_request s
      else None)"

text \<open>
  The part of the state that enabling and disabling work on: everything but the
  whitelist, the debug flag and the printed lines. A state is \<open>consistent\<close> when this
  part is that of a freshly loaded module, blocked or not.
\<close>

definition hooks :: "state \<Rightarrow> state" where
  "hooks s = s\<lparr>WHITELIST := {}, DEBUG := False, stdout := []\<rparr>"

definition consistent :: "state \<Rightarrow> bool" where
  "consistent s =
     (let i = initial (requests_Session_request s \<noteq> None)
                      (ssl_SSLContext_wrap_socket s \<noteq> None) []
      in hooks s = (if BLOCKED s then block_network i else i))"

text \<open>The invariant of the table of saved originals: it is non-empty exactly when blocked.\<close>

definition orig_invariant :: "state \<Rightarrow> bool" where
  "orig_invariant s = ((ORIG s \<noteq> []) = BLOCKED s)"

text \<open>A client program that calls neither \<^verbatim>\<open>add_whitelist\<close> nor \<^verbatim>\<open>remove_whitelist\<close>.\<close>

fun whitelist_free :: "cmd \<Rightarrow> bool" where
  "whitelist_free (Add_whitelist h) = False"
| "whitelist_free (Remove_whitelist h) = False"
| "whitelist_free (Allow_temporary body) = list_all whitelist_free body"
| "whitelist_free c = True"

section \<open>Properties\<close>

subsection \<open>Lower-casing and port stripping\<close>

lemma of_char_lower_char:
  "(of_char (lower_char c) :: nat) =
     (let n = of_char c in
      if (65 \<le> n \<and> n \<le> 90) \<or> (192 \<le> n \<and> n \<le> 214) \<or> (216 \<le> n \<and> n \<le> 222)
      then n + 32 else n)"
  by (auto simp add: lower_char_def Let_def)

lemma lower_char_colon: "(lower_char c = CHR '':'') = (c = CHR '':'')"
proof
  assume "lower_char c = CHR '':''"
  then have "(of_char (lower_char c) :: nat) = of_char (CHR '':'')" by simp
  then have "(of_char c :: nat) = of_char (CHR '':'')"
    by (simp add: of_char_lower_char Let_def split: if_splits)
  then show "c = CHR '':''" by (simp only: of_char_eq_iff)
next
  assume "c = CHR '':''"
  then show "lower_char c = CHR '':''" by (simp add: lower_char_def)
qed

lemma lower_char_idem: "lower_char (lower_char c) = lower_char c"
proof -
  have "(of_char (lower_char (lower_char c)) :: nat) = of_char (lower_char c)"
    by (simp add: of_char_lower_char Let_def)
  then show ?thesis by (simp only: of_char_eq_iff)
qed

lemma lower_idem: "lower (lower h) = lower h"
  by (simp add: lower_def lower_char_idem)

lemma lower_Nil: "(lower h = []) = (h = [])"
  by (simp add: lower_def)

lemma lower_takeWhile:
  "lower (takeWhile (\<lambda>c. c \<noteq> CHR '':'') h) = takeWhile (\<lambda>c. c \<noteq> CHR '':'') (lower h)"
  by (simp add: lower_def takeWhile_map comp_def lower_char_colon)

lemma suffix_lower:
  assumes "suffix w (lower x)"
  shows "lower w = w"
proof -
  from assms obtain zs where zs: "lower x = zs @ w"
    by (auto simp add: suffix_def)
  have "lower (zs @ w) = zs @ w"
    using lower_idem[of x] by (simp only: zs)
  then have "lower zs @ lower w = zs @ w"
    by (simp add: lower_def)
  moreover have "length (lower zs) = length zs"
    by (simp add: lower_def)
  ultimately show ?thesis by simp
qed

lemma takeWhile_no_colon:
  "CHR '':'' \<notin> set h \<Longrightarrow> takeWhile (\<lambda>c. c \<noteq> CHR '':'') h = h"
  by (induction h) auto

lemma strip_port:
  "(if CHR '':'' \<in> set h then takeWhile (\<lambda>c. c \<noteq> CHR '':'') h else h) =
     takeWhile (\<lambda>c. c \<noteq> CHR '':'') h"
  by (simp add: takeWhile_no_colon)

subsection \<open>Logging and host matching\<close>

lemma log_debug_frame:
  "ORIG (log_debug s m) = ORIG s"
  "BLOCKED (log_debug s m) = BLOCKED s"
  "WHITELIST (log_debug s m) = WHITELIST s"
  "DEBUG (log_debug s m) = DEBUG s"
  by (simp_all add: log_debug_def)

lemma fst_host_allowed:
  "fst (host_allowed s (Some h)) =
     (h \<noteq> [] \<and>
      ((\<exists>w \<in> WHITELIST s. lower (takeWhile (\<lambda>c. c \<noteq> CHR '':'') h) = w \<or>
            suffix (''.'' @ w) (lower (takeWhile (\<lambda>c. c \<noteq> CHR '':'') h))) \<or>
       lower (takeWhile (\<lambda>c. c \<noteq> CHR '':'') h) \<in> {''localhost'', ''127.0.0.1'', ''::1''}))"
  unfolding host_allowed_def strip_port by (simp add: Let_def)

lemma host_allowed_frame:
  "ORIG (snd (host_allowed s host)) = ORIG s"
  "BLOCKED (snd (host_allowed s host)) = BLOCKED s"
  "WHITELIST (snd (host_allowed s host)) = WHITELIST s"
  by (simp_all add: host_allowed_def Let_def log_debug_frame split: option.splits)

lemma compared_localhost:
  "lower (takeWhile (\<lambda>c. c \<noteq> CHR '':'') ''localhost'') = ''localhost''"
  by code_simp

lemma compared_loopback_ipv4:
  "lower (takeWhile (\<lambda>c. c \<noteq> CHR '':'') ''127.0.0.1'') = ''127.0.0.1''"
  by code_simp

lemma compared_loopback_ipv6:
  "lower (takeWhile (\<lambda>c. c \<noteq> CHR '':'') ''::1'') = []"
  by code_simp

lemma blocked_create_connection_denied:
  "\<not> fst (host_allowed s host) \<Longrightarrow>
   fst (blocked_create_connection s (host, port) timeout source_address) =
     Raise (NetworkBlockedError
       (''Attempt to connect to '' @ str_host host @ '':'' @ str_int port @
        '' blocked by python_blackbox''))"
  by (simp add: blocked_create_connection_def split_beta)

lemma blocked_create_connection_delegates:
  "fst (host_allowed s host) \<Longrightarrow> map_of (ORIG s) ''socket.create_connection'' = Some f \<Longrightarrow>
   fst (blocked_create_connection s (host, port) timeout source_address) =
     Delegate f ((host, port), timeout, source_address)"
  by (simp add: blocked_create_connection_def split_beta host_allowed_frame)

subsection \<open>Enabling\<close>

lemma block_network_id: "BLOCKED s \<Longrightarrow> block_network s = s"
  by (simp add: block_network_def)

text \<open>The effect of \<open>block_network\<close> on a state that is not blocked, as one update.\<close>

lemma block_network_unblocked:
  "\<not> BLOCKED s \<Longrightarrow>
   block_network s =
     s\<lparr>ORIG :=
         (case requests_Session_request s of
            None \<Rightarrow> (\<lambda>al. al)
          | Some f \<Rightarrow> AList.update ''requests.Session.request'' f)
         (AList.update ''http.client.HTTPConnection.connect'' (http_client_HTTPConnection_connect s)
         (AList.update ''urllib.request.urlopen'' (urllib_request_urlopen s)
         (AList.update ''socket.create_connection'' (socket_create_connection s)
         (AList.update ''socket.socket'' (socket_socket s) (ORIG s))))),
       socket_create_connection := Blocked_create_connection,
       urllib_request_urlopen := Blocked_urlopen,
       http_client_HTTPConnection_connect := Blocked_http_connect,
       requests_Session_request :=
         map_option (\<lambda>f. Blocked_requests_request) (requests_Session_request s),
       BLOCKED := True\<rparr>"
  by (cases "requests_Session_request s") (simp_all add: block_network_def Let_def)

lemma BLOCKED_block_network: "BLOCKED (block_network s)"
  by (cases "BLOCKED s") (simp_all add: block_network_id block_network_unblocked)

lemma block_network_frame:
  "WHITELIST (block_network s) = WHITELIST s"
  "DEBUG (block_network s) = DEBUG s"
  "stdout (block_network s) = stdout s"
  "socket_socket (block_network s) = socket_socket s"
  "ssl_SSLContext_wrap_socket (block_network s) = ssl_SSLContext_wrap_socket s"
  by (cases "BLOCKED s"; simp add: block_network_id block_network_unblocked)+

lemma ORIG_block_network: "\<not> BLOCKED s \<Longrightarrow> ORIG (block_network s) \<noteq> []"
  by (cases "requests_Session_request s") (simp_all add: block_network_unblocked)

lemma block_network_initial:
  "block_network (initial r c d) =
     (initial r c d)\<lparr>ORIG :=
        [(''socket.socket'', Original ''socket.socket''),
         (''socket.create_connection'', Original ''socket.create_connection''),
         (''urllib.request.urlopen'', Original ''urllib.request.urlopen''),
         (''http.client.HTTPConnection.connect'', Original ''http.client.HTTPConnection.connect'')]
        @ (if r then [(''requests.Session.request'', Original ''requests.Session.request'')] else []),
       BLOCKED := True,
       socket_create_connection := Blocked_create_connection,
       urllib_request_urlopen := Blocked_urlopen,
       http_client_HTTPConnection_connect := Blocked_http_connect,
       requests_Session_request := (if r then Some Blocked_requests_request else None)\<rparr>"
  by (cases r) (simp_all add: block_network_def initial_def Let_def)

subsection \<open>Disabling\<close>

lemma restore_frame:
  "WHITELIST (restore kv s) = WHITELIST s"
  "DEBUG (restore kv s) = DEBUG s"
  "stdout (restore kv s) = stdout s"
  "ORIG (restore kv s) = ORIG s"
  "BLOCKED (restore kv s) = BLOCKED s"
  by (cases kv; simp)+

lemma fold_restore_frame:
  "WHITELIST (fold restore xs s) = WHITELIST s"
  "DEBUG (fold restore xs s) = DEBUG s"
  "stdout (fold restore xs s) = stdout s"
  "ORIG (fold restore xs s) = ORIG s"
  "BLOCKED (fold restore xs s) = BLOCKED s"
  by (induction xs arbitrary: s; simp add: restore_frame)+

lemma not_BLOCKED_allow_network: "\<not> BLOCKED (allow_network s)"
  by (simp add: allow_network_def)

lemma allow_network_id: "\<not> BLOCKED s \<Longrightarrow> allow_network s = s"
  by (simp add: allow_network_def)

lemma allow_network_frame:
  "WHITELIST (allow_network s) = WHITELIST s"
  "DEBUG (allow_network s) = DEBUG s"
  "stdout (allow_network s) = stdout s"
  by (simp_all add: allow_network_def fold_restore_frame)

lemma ORIG_allow_network: "BLOCKED s \<Longrightarrow> ORIG (allow_network s) = []"
  by (simp add: allow_network_def)

lemma allow_block_initial: "allow_network (block_network (initial r c d)) = initial r c d"
  unfolding block_network_initial
  by (cases r) (simp_all add: allow_network_def initial_def)

text \<open>One iteration of the loop, read through the attribute paths.\<close>

lemma getattr_restore:
  "getattr_path k (restore (k', v) s) =
     (if k' = k \<and> getattr_path k s \<noteq> None then Some v else getattr_path k s)"
  by (simp add: getattr_path_def)

lemma getattr_fold_restore:
  "distinct (map fst xs) \<Longrightarrow>
   getattr_path k (fold restore xs s) =
     (case map_of xs k of
        None \<Rightarrow> getattr_path k s
      | Some v \<Rightarrow> if getattr_path k s \<noteq> None then Some v else None)"
proof (induction xs arbitrary: s)
  case Nil
  then show ?case by simp
next
  case (Cons kv xs)
  obtain k' v where kv: "kv = (k', v)" by (cases kv)
  show ?case
  proof (cases "k' = k")
    case True
    with Cons.prems kv have "map_of xs k = None"
      by (simp add: map_of_eq_None_iff)
    with Cons True kv show ?thesis
      by (simp add: getattr_restore del: restore.simps)
  next
    case False
    with Cons kv show ?thesis
      by (simp add: getattr_restore del: restore.simps split: option.splits)
  qed
qed

lemma getattr_allow_network:
  "BLOCKED s \<Longrightarrow> getattr_path k (allow_network s) = getattr_path k (fold restore (ORIG s) s)"
  by (simp add: allow_network_def getattr_path_def)

subsection \<open>Consistent states\<close>

lemma hooks_fields:
  "ORIG (hooks s) = ORIG s"
  "BLOCKED (hooks s) = BLOCKED s"
  "socket_socket (hooks s) = socket_socket s"
  "socket_create_connection (hooks s) = socket_create_connection s"
  "requests_Session_request (hooks s) = requests_Session_request s"
  "ssl_SSLContext_wrap_socket (hooks s) = ssl_SSLContext_wrap_socket s"
  by (simp_all add: hooks_def)

lemma hooks_initial: "hooks (initial r c d) = initial r c []"
  by (simp add: hooks_def initial_def)

lemma hooks_log_debug: "hooks (log_debug s m) = hooks s"
  by (simp add: log_debug_def hooks_def)

lemma hooks_block_network: "hooks (block_network s) = block_network (hooks s)"
proof (cases "BLOCKED s")
  case True
  then show ?thesis by (simp add: block_network_id hooks_fields)
next
  case False
  then have "\<not> BLOCKED (hooks s)" by (simp add: hooks_fields)
  from block_network_unblocked[OF False] block_network_unblocked[OF this] show ?thesis
    by (simp add: hooks_def)
qed

lemma hooks_restore: "hooks (restore kv s) = restore kv (hooks s)"
  by (cases kv) (simp add: hooks_def)

lemma hooks_fold_restore: "hooks (fold restore xs s) = fold restore xs (hooks s)"
  by (induction xs arbitrary: s) (simp_all add: hooks_restore del: restore.simps)

lemma hooks_update: "hooks (t\<lparr>ORIG := a, BLOCKED := b\<rparr>) = (hooks t)\<lparr>ORIG := a, BLOCKED := b\<rparr>"
  by (simp add: hooks_def)

lemma hooks_allow_network: "hooks (allow_network s) = allow_network (hooks s)"
  by (simp add: allow_network_def hooks_update hooks_fold_restore hooks_fields)

lemma presence_block_network:
  "(requests_Session_request (block_network s) = None) = (requests_Session_request s = None)"
  by (cases "BLOCKED s") (simp_all add: block_network_id block_network_unblocked)

lemma presence_initial:
  "(requests_Session_request (initial r c d) = None) = (\<not> r)"
  "(ssl_SSLContext_wrap_socket (initial r c d) = None) = (\<not> c)"
  by (simp_all add: initial_def)

lemma consistent_initial: "consistent (initial r c d)"
  by (simp add: consistent_def presence_initial hooks_initial del: not_None_eq)
    (simp add: initial_def)

lemma consistent_block_network:
  assumes "consistent s"
  shows "consistent (block_network s)"
proof (cases "BLOCKED s")
  case True
  with assms show ?thesis by (simp add: block_network_id)
next
  case False
  with assms have "hooks s =
      initial (requests_Session_request s \<noteq> None) (ssl_SSLContext_wrap_socket s \<noteq> None) []"
    by (simp add: consistent_def del: not_None_eq)
  then show ?thesis
    by (simp add: consistent_def BLOCKED_block_network hooks_block_network
        presence_block_network block_network_frame del: not_None_eq)
qed

lemma consistent_allow_network:
  assumes "consistent s"
  shows "consistent (allow_network s)"
proof (cases "BLOCKED s")
  case False
  with assms show ?thesis by (simp add: allow_network_id)
next
  case True
  define i where
    "i = initial (requests_Session_request s \<noteq> None) (ssl_SSLContext_wrap_socket s \<noteq> None) []"
  from assms True have "hooks s = block_network i"
    by (simp add: consistent_def i_def del: not_None_eq)
  then have h: "hooks (allow_network s) = i"
    by (simp add: hooks_allow_network allow_block_initial i_def)
  have "requests_Session_request (allow_network s) =
          requests_Session_request (hooks (allow_network s))"
    and "ssl_SSLContext_wrap_socket (allow_network s) =
          ssl_SSLContext_wrap_socket (hooks (allow_network s))"
    by (simp_all add: hooks_fields)
  with h have "initial (requests_Session_request (allow_network s) \<noteq> None)
                  (ssl_SSLContext_wrap_socket (allow_network s) \<noteq> None) [] = i"
    by (simp add: i_def presence_initial del: not_None_eq)
  with h show ?thesis
    by (simp add: consistent_def not_BLOCKED_allow_network del: not_None_eq)
qed

lemma consistent_log_debug: "consistent (log_debug s m) = consistent s"
  by (simp add: consistent_def hooks_log_debug) (simp add: log_debug_def)

lemma consistent_set_debug: "consistent (set_debug b s) = consistent s"
  by (simp add: consistent_def set_debug_def hooks_def)

lemma consistent_add_whitelist: "consistent (add_whitelist h s) = consistent s"
  by (simp add: add_whitelist_def consistent_log_debug) (simp add: consistent_def hooks_def)

lemma consistent_remove_whitelist: "consistent (remove_whitelist h s) = consistent s"
  by (simp add: remove_whitelist_def consistent_log_debug) (simp add: consistent_def hooks_def)

lemma consistent_import_module: "consistent (import_module r c d n)"
  by (simp add: import_module_def Let_def consistent_log_debug consistent_block_network
      consistent_initial)

text \<open>In a consistent state that is blocked, the hooks and the saved originals are known.\<close>

lemma consistent_BLOCKED:
  assumes "consistent s" and "BLOCKED s"
  shows "socket_create_connection s = Blocked_create_connection"
    and "map_of (ORIG s) ''socket.create_connection'' =
           Some (Original ''socket.create_connection'')"
proof -
  define i where
    "i = initial (requests_Session_request s \<noteq> None) (ssl_SSLContext_wrap_socket s \<noteq> None) []"
  from assms have h: "hooks s = block_network i"
    by (simp add: consistent_def i_def del: not_None_eq)
  have "socket_create_connection (hooks s) = Blocked_create_connection"
    unfolding h i_def block_network_initial by simp
  then show "socket_create_connection s = Blocked_create_connection"
    by (simp add: hooks_fields)
  have "map_of (ORIG (hooks s)) ''socket.create_connection'' =
          Some (Original ''socket.create_connection'')"
    unfolding h i_def block_network_initial by simp
  then show "map_of (ORIG s) ''socket.create_connection'' =
          Some (Original ''socket.create_connection'')"
    by (simp add: hooks_fields)
qed

lemma consistent_BLOCKED_hooks:
  assumes "consistent s" and "BLOCKED s"
  shows "urllib_request_urlopen s = Blocked_urlopen"
    and "http_client_HTTPConnection_connect s = Blocked_http_connect"
    and "socket_socket s = Original ''socket.socket''"
    and "requests_Session_request s = None \<or>
         requests_Session_request s = Some Blocked_requests_request"
proof -
  define i where
    "i = initial (requests_Session_request s \<noteq> None) (ssl_SSLContext_wrap_socket s \<noteq> None) []"
  from assms have h: "hooks s = block_network i"
    by (simp add: consistent_def i_def del: not_None_eq)
  have "urllib_request_urlopen (hooks s) = Blocked_urlopen"
    and "http_client_HTTPConnection_connect (hooks s) = Blocked_http_connect"
    and "socket_socket (hooks s) = Original ''socket.socket''"
    and "requests_Session_request (hooks s) = None \<or>
         requests_Session_request (hooks s) = Some Blocked_requests_request"
    unfolding h i_def block_network_initial by (simp_all add: initial_def)
  then show "urllib_request_urlopen s = Blocked_urlopen"
    and "http_client_HTTPConnection_connect s = Blocked_http_connect"
    and "socket_socket s = Original ''socket.socket''"
    and "requests_Session_request s = None \<or>
         requests_Session_request s = Some Blocked_requests_request"
    by (simp_all add: hooks_def)
qed

text \<open>In a consistent state that is not blocked, nothing is saved and nothing is hooked.\<close>

lemma consistent_unblocked:
  assumes "consistent s" and "\<not> BLOCKED s"
  shows "ORIG s = []"
    and "socket_socket s = Original ''socket.socket''"
    and "socket_create_connection s = Original ''socket.create_connection''"
    and "urllib_request_urlopen s = Original ''urllib.request.urlopen''"
    and "http_client_HTTPConnection_connect s = Original ''http.client.HTTPConnection.connect''"
    and "requests_Session_request s = None \<or>
         requests_Session_request s = Some (Original ''requests.Session.request'')"
proof -
  define i where
    "i = initial (requests_Session_request s \<noteq> None) (ssl_SSLContext_wrap_socket s \<noteq> None) []"
  from assms have h: "hooks s = i"
    by (simp add: consistent_def i_def del: not_None_eq)
  have "ORIG (hooks s) = []"
    and "socket_socket (hooks s) = Original ''socket.socket''"
    and "socket_create_connection (hooks s) = Original ''socket.create_connection''"
    and "urllib_request_urlopen (hooks s) = Original ''urllib.request.urlopen''"
    and "http_client_HTTPConnection_connect (hooks s) =
           Original ''http.client.HTTPConnection.connect''"
    and "requests_Session_request (hooks s) = None \<or>
         requests_Session_request (hooks s) = Some (Original ''requests.Session.request'')"
    unfolding h i_def by (simp_all add: initial_def)
  then show "ORIG s = []"
    and "socket_socket s = Original ''socket.socket''"
    and "socket_create_connection s = Original ''socket.create_connection''"
    and "urllib_request_urlopen s = Original ''urllib.request.urlopen''"
    and "http_client_HTTPConnection_connect s = Original ''http.client.HTTPConnection.connect''"
    and "requests_Session_request s = None \<or>
         requests_Session_request s = Some (Original ''requests.Session.request'')"
    by (simp_all add: hooks_def)
qed

lemma allow_temporary_enter_consistent:
  "consistent s \<Longrightarrow> consistent (snd (allow_temporary_enter s))"
  by (simp add: allow_temporary_enter_def Let_def consistent_log_debug consistent_allow_network)

lemma allow_temporary_enter_unblocked: "\<not> BLOCKED (snd (allow_temporary_enter s))"
  by (simp add: allow_temporary_enter_def Let_def is_blocked_def not_BLOCKED_allow_network)

lemma allow_temporary_enter_was_blocked: "fst (allow_temporary_enter s) = BLOCKED s"
  by (simp add: allow_temporary_enter_def Let_def is_blocked_def log_debug_frame)

subsection \<open>Invariants of client programs\<close>

lemma allow_temporary_invariant:
  assumes "\<And>t. I t \<Longrightarrow> I (allow_network t)"
    and "\<And>t. I t \<Longrightarrow> I (block_network t)"
    and "\<And>t m. I t \<Longrightarrow> I (log_debug t m)"
    and "\<And>t. I t \<Longrightarrow> I (snd (body t))"
    and "I s"
  shows "I (snd (allow_temporary body s))"
  using assms
  by (simp add: allow_temporary_def allow_temporary_enter_def allow_temporary_exit_def
      Let_def split_beta)

lemma exec_invariant:
  assumes "\<And>t. I t \<Longrightarrow> I (allow_network t)"
    and "\<And>t. I t \<Longrightarrow> I (block_network t)"
    and "\<And>t m. I t \<Longrightarrow> I (log_debug t m)"
    and "\<And>t b. I t \<Longrightarrow> I (set_debug b t)"
    and "\<And>t h. I t \<Longrightarrow> I (add_whitelist h t)"
    and "\<And>t h. I t \<Longrightarrow> I (remove_whitelist h t)"
  shows "I s \<Longrightarrow> I (snd (exec c s))" and "I s \<Longrightarrow> I (snd (exec_all cs s))"
proof (induction c s and cs s rule: exec_exec_all.induct)
  case (6 body s)
  show ?case
    unfolding exec.simps
    by (rule allow_temporary_invariant) (use assms 6 in auto)
next
  case (9 c cs s)
  then show ?case
    by (cases "exec c s") (auto split: option.splits)
qed (use assms in auto)

lemma exec_all_consistent: "consistent s \<Longrightarrow> consistent (snd (exec_all cs s))"
  by (rule exec_invariant(2)[where I = consistent])
    (simp_all add: consistent_allow_network consistent_block_network consistent_log_debug
      consistent_set_debug consistent_add_whitelist consistent_remove_whitelist)

lemma orig_invariant_block_network: "orig_invariant s \<Longrightarrow> orig_invariant (block_network s)"
  by (cases "BLOCKED s")
    (simp_all add: orig_invariant_def block_network_id BLOCKED_block_network ORIG_block_network)

lemma orig_invariant_allow_network: "orig_invariant s \<Longrightarrow> orig_invariant (allow_network s)"
  by (cases "BLOCKED s")
    (simp_all add: orig_invariant_def allow_network_id not_BLOCKED_allow_network
      ORIG_allow_network)

lemma orig_invariant_log_debug: "orig_invariant (log_debug s m) = orig_invariant s"
  by (simp add: orig_invariant_def log_debug_frame)

lemma orig_invariant_set_debug: "orig_invariant (set_debug b s) = orig_invariant s"
  by (simp add: orig_invariant_def set_debug_def)

lemma orig_invariant_add_whitelist: "orig_invariant (add_whitelist h s) = orig_invariant s"
  by (simp add: add_whitelist_def orig_invariant_log_debug) (simp add: orig_invariant_def)

lemma orig_invariant_remove_whitelist:
  "orig_invariant (remove_whitelist h s) = orig_invariant s"
  by (simp add: remove_whitelist_def orig_invariant_log_debug) (simp add: orig_invariant_def)

lemma exec_all_orig_invariant: "orig_invariant s \<Longrightarrow> orig_invariant (snd (exec_all cs s))"
  by (rule exec_invariant(2)[where I = orig_invariant])
    (simp_all add: orig_invariant_allow_network orig_invariant_block_network
      orig_invariant_log_debug orig_invariant_set_debug orig_invariant_add_whitelist
      orig_invariant_remove_whitelist)

lemma allow_temporary_frame:
  "WHITELIST (snd (allow_temporary_enter s)) = WHITELIST s"
  "WHITELIST (allow_temporary_exit b s) = WHITELIST s"
  "snd (allow_temporary body s) =
     allow_temporary_exit (fst (allow_temporary_enter s)) (snd (body (snd (allow_temporary_enter s))))"
  "fst (allow_temporary body s) = fst (body (snd (allow_temporary_enter s)))"
  by (simp_all add: allow_temporary_def allow_temporary_enter_def allow_temporary_exit_def
      Let_def split_beta is_blocked_def log_debug_frame allow_network_frame block_network_frame)

lemma exec_whitelist_free:
  "whitelist_free c \<Longrightarrow> WHITELIST (snd (exec c s)) = WHITELIST s"
  "list_all whitelist_free cs \<Longrightarrow> WHITELIST (snd (exec_all cs s)) = WHITELIST s"
proof (induction c s and cs s rule: exec_exec_all.induct)
  case (6 body s)
  then show ?case by (simp add: allow_temporary_frame)
next
  case (9 c cs s)
  then show ?case
    by (cases "exec c s") (auto split: option.splits)
qed (simp_all add: block_network_frame allow_network_frame set_debug_def)

section \<open>The claims\<close>

subsection \<open>C1: the connect-to-address hook\<close>

text \<open>
  C1. Let \<open>s\<close> be any state a client reaches after the module is loaded, with
  enforcement enabled (\<open>BLOCKED s\<close>); its whitelist is whatever the client made it, the
  empty set included. Then \<^verbatim>\<open>socket.create_connection\<close> is bound to
  \<^verbatim>\<open>_blocked_create_connection\<close>. A call with a host whose compared form (cut at the
  first colon, lower-cased) neither equals a whitelist entry, nor ends with a dot and an
  entry, nor is one of the three loopback names, raises \<^verbatim>\<open>NetworkBlockedError\<close> naming
  host and port, so no original is called. A call with host \<^verbatim>\<open>127.0.0.1\<close> is a call of the
  saved original \<^verbatim>\<open>socket.create_connection\<close> with the same three arguments.
\<close>

theorem create_connection_enforced:
  assumes "s = snd (exec_all cs (import_module have_requests have_sslcontext env_debug env_noauto))"
    and "BLOCKED s"
  shows "socket_create_connection s = Blocked_create_connection \<and>
    ((\<forall>w \<in> WHITELIST s.
         lower (takeWhile (\<lambda>c. c \<noteq> CHR '':'') h) \<noteq> w \<and>
         \<not> suffix (''.'' @ w) (lower (takeWhile (\<lambda>c. c \<noteq> CHR '':'') h))) \<and>
     lower (takeWhile (\<lambda>c. c \<noteq> CHR '':'') h) \<notin> {''localhost'', ''127.0.0.1'', ''::1''} \<longrightarrow>
     fst (socket_create_connection_call s (Some h, port) timeout source_address) =
       Raise (NetworkBlockedError
         (''Attempt to connect to '' @ h @ '':'' @ str_int port @
          '' blocked by python_blackbox''))) \<and>
    fst (socket_create_connection_call s (Some ''127.0.0.1'', port) timeout source_address) =
      Delegate (Original ''socket.create_connection'')
        ((Some ''127.0.0.1'', port), timeout, source_address)"
proof -
  have "consistent s"
    unfolding assms(1) by (rule exec_all_consistent) (rule consistent_import_module)
  note hook = consistent_BLOCKED[OF this assms(2)]
  have call: "socket_create_connection_call s a timeout source_address =
      blocked_create_connection s a timeout source_address" for a
    by (simp add: socket_create_connection_call_def hook(1))
  have loopback: "fst (host_allowed s (Some ''127.0.0.1''))"
    unfolding fst_host_allowed compared_loopback_ipv4 by simp
  have denied: "fst (socket_create_connection_call s (Some h, port) timeout source_address) =
       Raise (NetworkBlockedError
         (''Attempt to connect to '' @ h @ '':'' @ str_int port @
          '' blocked by python_blackbox''))"
    if "\<forall>w \<in> WHITELIST s.
         lower (takeWhile (\<lambda>c. c \<noteq> CHR '':'') h) \<noteq> w \<and>
         \<not> suffix (''.'' @ w) (lower (takeWhile (\<lambda>c. c \<noteq> CHR '':'') h))"
      and "lower (takeWhile (\<lambda>c. c \<noteq> CHR '':'') h) \<notin> {''localhost'', ''127.0.0.1'', ''::1''}"
  proof -
    from that have "\<not> fst (host_allowed s (Some h))"
      by (auto simp add: fst_host_allowed)
    from blocked_create_connection_denied[OF this] show ?thesis
      by (simp add: call str_host_def)
  qed
  have delegated:
    "fst (socket_create_connection_call s (Some ''127.0.0.1'', port) timeout source_address) =
      Delegate (Original ''socket.create_connection'')
        ((Some ''127.0.0.1'', port), timeout, source_address)"
    unfolding call by (rule blocked_create_connection_delegates[OF loopback hook(2)])
  from hook(1) denied delegated show ?thesis
    by blast
qed

theorem create_connection_enforced_witness:
  "fst (socket_create_connection_call (import_module True True [] [])
          (Some ''example.com'', 443) () ()) =
     Raise (NetworkBlockedError ''Attempt to connect to example.com:443 blocked by python_blackbox'') \<and>
   fst (socket_create_connection_call
          (snd (exec_all [Add_whitelist ''httpbin.org''] (import_module True True [] [])))
          (Some ''example.com'', 443) () ()) =
     Raise (NetworkBlockedError ''Attempt to connect to example.com:443 blocked by python_blackbox'') \<and>
   fst (socket_create_connection_call (import_module True True [] [])
          (Some ''127.0.0.1'', 443) () ()) =
     Delegate (Original ''socket.create_connection'') ((Some ''127.0.0.1'', 443), (), ())"
proof -
  let ?e = "import_module True True [] []"
  let ?s = "snd (exec_all [Add_whitelist ''httpbin.org''] (import_module True True [] []))"
  have e: "?e = snd (exec_all [] ?e)"
    by simp
  have be: "BLOCKED ?e"
    by code_simp
  have bs: "BLOCKED ?s"
    by code_simp
  have he: "(\<forall>w \<in> WHITELIST ?e.
         lower (takeWhile (\<lambda>c. c \<noteq> CHR '':'') ''example.com'') \<noteq> w \<and>
         \<not> suffix (''.'' @ w) (lower (takeWhile (\<lambda>c. c \<noteq> CHR '':'') ''example.com''))) \<and>
     lower (takeWhile (\<lambda>c. c \<noteq> CHR '':'') ''example.com'') \<notin> {''localhost'', ''127.0.0.1'', ''::1''}"
    by code_simp
  have hs: "(\<forall>w \<in> WHITELIST ?s.
         lower (takeWhile (\<lambda>c. c \<noteq> CHR '':'') ''example.com'') \<noteq> w \<and>
         \<not> suffix (''.'' @ w) (lower (takeWhile (\<lambda>c. c \<noteq> CHR '':'') ''example.com''))) \<and>
     lower (takeWhile (\<lambda>c. c \<noteq> CHR '':'') ''example.com'') \<notin> {''localhost'', ''127.0.0.1'', ''::1''}"
    by code_simp
  have p: "''Attempt to connect to '' @ ''example.com'' @ '':'' @ str_int 443 @
          '' blocked by python_blackbox'' = ''Attempt to connect to example.com:443 blocked by python_blackbox''"
    by code_simp
  from create_connection_enforced[OF e be, where h = "''example.com''" and port = 443
      and timeout = "()" and source_address = "()"] he
  have "fst (socket_create_connection_call ?e (Some ''example.com'', 443) () ()) =
     Raise (NetworkBlockedError ''Attempt to connect to example.com:443 blocked by python_blackbox'') \<and>
     fst (socket_create_connection_call ?e (Some ''127.0.0.1'', 443) () ()) =
     Delegate (Original ''socket.create_connection'') ((Some ''127.0.0.1'', 443), (), ())"
    unfolding p by blast
  moreover from create_connection_enforced[OF refl bs, where h = "''example.com''" and port = 443
      and timeout = "()" and source_address = "()"] hs
  have "fst (socket_create_connection_call ?s (Some ''example.com'', 443) () ()) =
     Raise (NetworkBlockedError ''Attempt to connect to example.com:443 blocked by python_blackbox'')"
    unfolding p by blast
  ultimately show ?thesis by blast
qed

subsection \<open>C2: the fixed safe set\<close>

text \<open>
  C2. \<^verbatim>\<open>localhost\<close> and \<^verbatim>\<open>127.0.0.1\<close> are allowed in every state, whatever the whitelist
  holds. The third member of the safe set is not: the port is stripped before the
  comparison, and the part of \<^verbatim>\<open>::1\<close> before its first colon is the empty string, which
  is none of the three names. With the empty whitelist of a freshly loaded module
  \<^verbatim>\<open>_host_allowed("::1")\<close> is false.
\<close>

theorem safe_set_ipv6_loopback_denied:
  "fst (host_allowed s (Some ''localhost'')) \<and>
   fst (host_allowed s (Some ''127.0.0.1'')) \<and>
   \<not> fst (host_allowed (initial have_requests have_sslcontext env_debug) (Some ''::1''))"
proof -
  have "fst (host_allowed s (Some ''localhost''))"
    unfolding fst_host_allowed compared_localhost by simp
  moreover have "fst (host_allowed s (Some ''127.0.0.1''))"
    unfolding fst_host_allowed compared_loopback_ipv4 by simp
  moreover have "\<not> fst (host_allowed (initial have_requests have_sslcontext env_debug) (Some ''::1''))"
    unfolding fst_host_allowed compared_loopback_ipv6 by (simp add: initial_def)
  ultimately show ?thesis by blast
qed

subsection \<open>C3: exact and subdomain matches\<close>

text \<open>
  C3 as stated fails: the entry is compared with the host after the host was cut at its
  first colon and lower-cased, so a host equal to the only entry is still denied when it
  carries a port (or an upper-case letter, or is empty).
\<close>

theorem host_equal_to_entry_denied_counterexample:
  "WHITELIST (add_whitelist ''example.com:8443'' (initial True True [])) = {''example.com:8443''} \<and>
   \<not> fst (host_allowed (add_whitelist ''example.com:8443'' (initial True True []))
           (Some ''example.com:8443''))"
  by code_simp

text \<open>
  C3, amended. For a non-empty host, if its compared form (cut at the first colon,
  lower-cased) equals a whitelist entry or ends with a dot followed by the entry, the host
  is allowed. This covers every lower-case host without a colon that equals the entry or
  ends with a dot and the entry. \<^verbatim>\<open>notexample.com\<close> is denied when the whitelist is
  \<^verbatim>\<open>{example.com}\<close>.
\<close>

theorem host_allowed_entry_or_subdomain:
  "(h \<noteq> [] \<and> w \<in> WHITELIST s \<and>
      (lower (takeWhile (\<lambda>c. c \<noteq> CHR '':'') h) = w \<or>
       suffix (''.'' @ w) (lower (takeWhile (\<lambda>c. c \<noteq> CHR '':'') h))) \<longrightarrow>
    fst (host_allowed s (Some h))) \<and>
   (h \<noteq> [] \<and> CHR '':'' \<notin> set h \<and> lower h = h \<and> WHITELIST s = {w} \<and>
      (h = w \<or> suffix (''.'' @ w) h) \<longrightarrow>
    fst (host_allowed s (Some h))) \<and>
   (WHITELIST s = {''example.com''} \<longrightarrow> \<not> fst (host_allowed s (Some ''notexample.com'')))"
proof -
  have general: "fst (host_allowed s (Some h))"
    if "h \<noteq> []" and "w \<in> WHITELIST s"
      and "lower (takeWhile (\<lambda>c. c \<noteq> CHR '':'') h) = w \<or>
           suffix (''.'' @ w) (lower (takeWhile (\<lambda>c. c \<noteq> CHR '':'') h))"
    for w
    using that unfolding fst_host_allowed by blast
  have plain: "fst (host_allowed s (Some h))"
    if "h \<noteq> []" and "CHR '':'' \<notin> set h" and "lower h = h" and "WHITELIST s = {w}"
      and "h = w \<or> suffix (''.'' @ w) h"
  proof -
    from that(2,3) have "lower (takeWhile (\<lambda>c. c \<noteq> CHR '':'') h) = h"
      by (simp add: takeWhile_no_colon)
    with that(1,4,5) show ?thesis
      by (intro general[of w]) simp_all
  qed
  have cmp: "lower (takeWhile (\<lambda>c. c \<noteq> CHR '':'') ''notexample.com'') = ''notexample.com''"
    by code_simp
  have nosuf: "\<not> suffix (''.'' @ ''example.com'') ''notexample.com''"
    by code_simp
  have other: "\<not> fst (host_allowed s (Some ''notexample.com''))"
    if "WHITELIST s = {''example.com''}"
    unfolding fst_host_allowed cmp using that nosuf by simp
  from general plain other show ?thesis
    by blast
qed

theorem host_allowed_entry_or_subdomain_witness:
  "fst (host_allowed (add_whitelist ''example.com'' (initial True True []))
          (Some ''api.example.com:8443'')) \<and>
   fst (host_allowed (add_whitelist ''example.com'' (initial True True []))
          (Some ''example.com'')) \<and>
   \<not> fst (host_allowed (add_whitelist ''example.com'' (initial True True []))
          (Some ''notexample.com''))"
proof -
  let ?s = "add_whitelist ''example.com'' (initial True True [])"
  have w: "WHITELIST ?s = {''example.com''}"
    by code_simp
  have a: "''api.example.com:8443'' \<noteq> [] \<and> ''example.com'' \<in> WHITELIST ?s \<and>
      (lower (takeWhile (\<lambda>c. c \<noteq> CHR '':'') ''api.example.com:8443'') = ''example.com'' \<or>
       suffix (''.'' @ ''example.com'')
         (lower (takeWhile (\<lambda>c. c \<noteq> CHR '':'') ''api.example.com:8443'')))"
    by code_simp
  have b: "''example.com'' \<noteq> [] \<and> CHR '':'' \<notin> set ''example.com'' \<and>
      lower ''example.com'' = ''example.com'' \<and>
      (''example.com'' = ''example.com'' \<or> suffix (''.'' @ ''example.com'') ''example.com'')"
    by code_simp
  from host_allowed_entry_or_subdomain[of "''api.example.com:8443''" "''example.com''" ?s] a
  have "fst (host_allowed ?s (Some ''api.example.com:8443''))"
    by blast
  moreover from host_allowed_entry_or_subdomain[of "''example.com''" "''example.com''" ?s] b w
  have "fst (host_allowed ?s (Some ''example.com''))"
    by blast
  moreover from host_allowed_entry_or_subdomain[of _ _ ?s] w
  have "\<not> fst (host_allowed ?s (Some ''notexample.com''))"
    by blast
  ultimately show ?thesis by blast
qed

subsection \<open>C4: letter case\<close>

text \<open>
  C4 as stated fails on the side of the whitelist: only the host is lower-cased, an entry
  is compared as it was stored. The two entries below differ in letter case only; the
  first allows the host \<^verbatim>\<open>example.com\<close>, the second does not.
\<close>

theorem entry_letter_case_matters_counterexample:
  "lower ''Example.com'' = lower ''example.com'' \<and>
   fst (host_allowed (add_whitelist ''example.com'' (initial True True [])) (Some ''example.com'')) \<and>
   \<not> fst (host_allowed (add_whitelist ''Example.com'' (initial True True [])) (Some ''example.com''))"
  by code_simp

text \<open>
  C4, amended. The result depends on the host only through the form that is compared:
  two non-empty hosts whose forms after the cut at the first colon and the lower-casing
  are equal get the same answer in every state. For hosts of code points 0 to 255 (the
  strings of this theory, ASCII among them), where lower-casing works character by
  character, this means that the answer does not change with the letter case of the host:
  two such hosts with the same lower-case form get the same answer. An entry is compared
  as stored with the lower-cased host, so an entry (of code points 0 to 255) that is not in
  lower case matches no host at all: with such an entry alone in the whitelist, exactly
  the loopback names are allowed. \<^verbatim>\<open>API.Example.com\<close> is allowed when the whitelist is
  \<^verbatim>\<open>{example.com}\<close>.
\<close>

theorem host_allowed_ignores_host_case:
  "(h \<noteq> [] \<and> h' \<noteq> [] \<and>
      lower (takeWhile (\<lambda>c. c \<noteq> CHR '':'') h) = lower (takeWhile (\<lambda>c. c \<noteq> CHR '':'') h') \<longrightarrow>
      fst (host_allowed s (Some h)) = fst (host_allowed s (Some h'))) \<and>
   (lower h = lower h' \<longrightarrow> fst (host_allowed s (Some h)) = fst (host_allowed s (Some h'))) \<and>
   (WHITELIST s = {w} \<and> lower w \<noteq> w \<longrightarrow>
      fst (host_allowed s (Some h)) =
        (h \<noteq> [] \<and>
         lower (takeWhile (\<lambda>c. c \<noteq> CHR '':'') h) \<in> {''localhost'', ''127.0.0.1'', ''::1''})) \<and>
   (WHITELIST s = {''example.com''} \<longrightarrow> fst (host_allowed s (Some ''API.Example.com'')))"
proof -
  have compared: "fst (host_allowed s (Some h)) = fst (host_allowed s (Some h'))"
    if "h \<noteq> []" and "h' \<noteq> []"
      and "lower (takeWhile (\<lambda>c. c \<noteq> CHR '':'') h) = lower (takeWhile (\<lambda>c. c \<noteq> CHR '':'') h')"
    using that by (simp add: fst_host_allowed)
  have host: "fst (host_allowed s (Some h)) = fst (host_allowed s (Some h'))"
    if "lower h = lower h'"
  proof (cases "h = []")
    case True
    with that have "h' = []"
      by (metis lower_Nil)
    with True show ?thesis by simp
  next
    case False
    with that have "h' \<noteq> []"
      by (metis lower_Nil)
    moreover from that
    have "lower (takeWhile (\<lambda>c. c \<noteq> CHR '':'') h) = lower (takeWhile (\<lambda>c. c \<noteq> CHR '':'') h')"
      by (simp add: lower_takeWhile)
    ultimately show ?thesis
      using False by (intro compared)
  qed
  have entry: "fst (host_allowed s (Some h)) =
        (h \<noteq> [] \<and>
         lower (takeWhile (\<lambda>c. c \<noteq> CHR '':'') h) \<in> {''localhost'', ''127.0.0.1'', ''::1''})"
    if "WHITELIST s = {w}" and "lower w \<noteq> w"
  proof -
    let ?h = "lower (takeWhile (\<lambda>c. c \<noteq> CHR '':'') h)"
    have "?h \<noteq> w"
      using that(2) lower_idem[of "takeWhile (\<lambda>c. c \<noteq> CHR '':'') h"] by auto
    moreover have "\<not> suffix (''.'' @ w) ?h"
    proof
      assume "suffix (''.'' @ w) ?h"
      then have "suffix w ?h"
        by (rule suffix_appendD)
      then have "lower w = w"
        by (rule suffix_lower)
      with that(2) show False by simp
    qed
    ultimately show ?thesis
      unfolding fst_host_allowed using that(1) by simp
  qed
  have cmp: "lower (takeWhile (\<lambda>c. c \<noteq> CHR '':'') ''API.Example.com'') = ''api.example.com''"
    by code_simp
  have suf: "suffix (''.'' @ ''example.com'') ''api.example.com''"
    by code_simp
  have example: "fst (host_allowed s (Some ''API.Example.com''))"
    if "WHITELIST s = {''example.com''}"
    unfolding fst_host_allowed cmp using that suf by simp
  from compared host entry example show ?thesis
    by blast
qed

theorem host_allowed_ignores_host_case_witness:
  "fst (host_allowed (add_whitelist ''example.com'' (initial True True [])) (Some ''API.Example.com'')) \<and>
   fst (host_allowed (add_whitelist ''example.com'' (initial True True [])) (Some ''api.EXAMPLE.com'')) \<and>
   fst (host_allowed (add_whitelist ''example.com'' (initial True True [])) (Some ''Api.Example.Com:8443'')) \<and>
   \<not> fst (host_allowed (add_whitelist ''Example.com'' (initial True True [])) (Some ''example.com'')) \<and>
   fst (host_allowed (add_whitelist ''Example.com'' (initial True True [])) (Some ''LocalHost''))"
proof -
  let ?s = "add_whitelist ''example.com'' (initial True True [])"
  let ?t = "add_whitelist ''Example.com'' (initial True True [])"
  have ws: "WHITELIST ?s = {''example.com''}"
    by code_simp
  have wt: "WHITELIST ?t = {''Example.com''} \<and> lower ''Example.com'' \<noteq> ''Example.com''"
    by code_simp
  have l: "lower ''API.Example.com'' = lower ''api.EXAMPLE.com''"
    by code_simp
  have p: "''API.Example.com'' \<noteq> [] \<and> ''Api.Example.Com:8443'' \<noteq> [] \<and>
      lower (takeWhile (\<lambda>c. c \<noteq> CHR '':'') ''API.Example.com'') =
      lower (takeWhile (\<lambda>c. c \<noteq> CHR '':'') ''Api.Example.Com:8443'')"
    by code_simp
  have c1: "\<not> (''example.com'' \<noteq> [] \<and>
         lower (takeWhile (\<lambda>c. c \<noteq> CHR '':'') ''example.com'') \<in> {''localhost'', ''127.0.0.1'', ''::1''})"
    by code_simp
  have c2: "''LocalHost'' \<noteq> [] \<and>
         lower (takeWhile (\<lambda>c. c \<noteq> CHR '':'') ''LocalHost'') \<in> {''localhost'', ''127.0.0.1'', ''::1''}"
    by code_simp
  from host_allowed_ignores_host_case[of "''API.Example.com''" "''api.EXAMPLE.com''" ?s] ws l
  have "fst (host_allowed ?s (Some ''API.Example.com'')) \<and>
        fst (host_allowed ?s (Some ''api.EXAMPLE.com''))"
    by blast
  moreover from host_allowed_ignores_host_case[of "''API.Example.com''" "''Api.Example.Com:8443''" ?s] ws p
  have "fst (host_allowed ?s (Some ''Api.Example.Com:8443''))"
    by blast
  moreover from host_allowed_ignores_host_case[of "''example.com''" _ ?t "''Example.com''"] wt c1
  have "\<not> fst (host_allowed ?t (Some ''example.com''))"
    by blast
  moreover from host_allowed_ignores_host_case[of "''LocalHost''" _ ?t "''Example.com''"] wt c2
  have "fst (host_allowed ?t (Some ''LocalHost''))"
    by blast
  ultimately show ?thesis by blast
qed

subsection \<open>C5: raw socket construction\<close>

text \<open>
  C5. \<open>block_network\<close> saves \<^verbatim>\<open>socket.socket\<close> in \<^verbatim>\<open>_ORIG\<close> but never rebinds it:
  \<^verbatim>\<open>_BlockedSocket\<close> is defined and not installed. After enabling, in a freshly loaded
  module, constructing a socket is a call of the original constructor, not a denial.
\<close>

theorem block_network_keeps_socket_constructor:
  "socket_socket (block_network s) = socket_socket s \<and>
   BLOCKED (block_network (initial have_requests have_sslcontext env_debug)) \<and>
   socket_socket_call (block_network (initial have_requests have_sslcontext env_debug)) args =
     Delegate (Original ''socket.socket'') args"
  by (simp add: block_network_frame BLOCKED_block_network socket_socket_call_def)
    (simp add: initial_def)

subsection \<open>C6: the temporary-allow guard\<close>

text \<open>
  C6. For every block, returning or raising, and every state on entry.
  If enforcement is on at entry (\<^verbatim>\<open>_BLOCKED\<close> set), the flag is off when the block starts
  and on again after the exit code ran, whatever the block did. If it is off at entry,
  the guard only prints its debug line, and the state after the guard is the state the
  block left, so the guard itself never enables enforcement. Hence a block that leaves the
  flag as it found it leaves the flag after the guard as it was before. The block's
  exception, if any, passes through.

  The hooks follow the flag. Let the state at entry be consistent (as every state is that
  a client reaches after loading the module) with enforcement on. Then inside the block
  nothing is hooked and nothing is saved: \<^verbatim>\<open>socket.create_connection\<close>, \<^verbatim>\<open>urlopen\<close> and
  \<^verbatim>\<open>HTTPConnection.connect\<close> are bound to the originals, \<^verbatim>\<open>_ORIG\<close> is empty, and a call of
  \<^verbatim>\<open>socket.create_connection\<close> to any address is a call of the original. If the block leaves
  a consistent state, then after the guard the three replacements are bound again, the
  original \<^verbatim>\<open>socket.create_connection\<close> is saved again, the state is consistent, and a call
  to a host that the whitelist of that moment does not allow raises \<^verbatim>\<open>NetworkBlockedError\<close>.
\<close>

theorem allow_temporary_restores_enforcement:
  "(BLOCKED s \<longrightarrow>
      \<not> BLOCKED (snd (allow_temporary_enter s)) \<and> BLOCKED (snd (allow_temporary body s))) \<and>
   (\<not> BLOCKED s \<longrightarrow>
      snd (allow_temporary_enter s) = log_debug s ''Entering allow_temporary context'' \<and>
      snd (allow_temporary body s) = snd (body (snd (allow_temporary_enter s)))) \<and>
   ((\<forall>t. BLOCKED (snd (body t)) = BLOCKED t) \<longrightarrow>
      BLOCKED (snd (allow_temporary body s)) = BLOCKED s) \<and>
   fst (allow_temporary body s) = fst (body (snd (allow_temporary_enter s))) \<and>
   (consistent s \<and> BLOCKED s \<longrightarrow>
      ORIG (snd (allow_temporary_enter s)) = [] \<and>
      socket_create_connection (snd (allow_temporary_enter s)) =
        Original ''socket.create_connection'' \<and>
      urllib_request_urlopen (snd (allow_temporary_enter s)) =
        Original ''urllib.request.urlopen'' \<and>
      http_client_HTTPConnection_connect (snd (allow_temporary_enter s)) =
        Original ''http.client.HTTPConnection.connect'' \<and>
      fst (socket_create_connection_call (snd (allow_temporary_enter s))
             address timeout source_address) =
        Delegate (Original ''socket.create_connection'') (address, timeout, source_address) \<and>
      ((\<forall>t. consistent t \<longrightarrow> consistent (snd (body t))) \<longrightarrow>
         consistent (snd (allow_temporary body s)) \<and>
         socket_create_connection (snd (allow_temporary body s)) = Blocked_create_connection \<and>
         urllib_request_urlopen (snd (allow_temporary body s)) = Blocked_urlopen \<and>
         http_client_HTTPConnection_connect (snd (allow_temporary body s)) =
           Blocked_http_connect \<and>
         map_of (ORIG (snd (allow_temporary body s))) ''socket.create_connection'' =
           Some (Original ''socket.create_connection'') \<and>
         (\<not> fst (host_allowed (snd (allow_temporary body s)) (Some h)) \<longrightarrow>
            fst (socket_create_connection_call (snd (allow_temporary body s))
                   (Some h, port) timeout source_address) =
              Raise (NetworkBlockedError
                (''Attempt to connect to '' @ h @ '':'' @ str_int port @
                 '' blocked by python_blackbox'')))))"
proof -
  let ?inside = "snd (allow_temporary_enter s)"
  let ?after = "snd (allow_temporary body s)"
  have on: "\<not> BLOCKED ?inside \<and> BLOCKED ?after"
    if "BLOCKED s"
    using that
    by (simp add: allow_temporary_frame allow_temporary_enter_def allow_temporary_exit_def
        is_blocked_def log_debug_frame not_BLOCKED_allow_network BLOCKED_block_network)
  have off: "?inside = log_debug s ''Entering allow_temporary context'' \<and>
      ?after = snd (body ?inside)"
    if "\<not> BLOCKED s"
    using that
    by (simp add: allow_temporary_frame allow_temporary_enter_def allow_temporary_exit_def
        is_blocked_def log_debug_frame)
  have same: "BLOCKED ?after = BLOCKED s"
    if "\<forall>t. BLOCKED (snd (body t)) = BLOCKED t"
  proof (cases "BLOCKED s")
    case True
    with on show ?thesis by simp
  next
    case False
    with off that show ?thesis by (simp add: log_debug_frame)
  qed
  have pass: "fst (allow_temporary body s) = fst (body ?inside)"
    by (simp add: allow_temporary_frame)
  have inside: "ORIG ?inside = [] \<and>
      socket_create_connection ?inside = Original ''socket.create_connection'' \<and>
      urllib_request_urlopen ?inside = Original ''urllib.request.urlopen'' \<and>
      http_client_HTTPConnection_connect ?inside =
        Original ''http.client.HTTPConnection.connect'' \<and>
      fst (socket_create_connection_call ?inside address timeout source_address) =
        Delegate (Original ''socket.create_connection'') (address, timeout, source_address)"
    if "consistent s"
  proof -
    from that have c: "consistent ?inside"
      by (rule allow_temporary_enter_consistent)
    note u = consistent_unblocked[OF c allow_temporary_enter_unblocked]
    from u(3) have "fst (socket_create_connection_call ?inside address timeout source_address) =
        Delegate (Original ''socket.create_connection'') (address, timeout, source_address)"
      by (simp add: socket_create_connection_call_def)
    with u(1,3,4,5) show ?thesis
      by blast
  qed
  have after: "consistent ?after \<and>
         socket_create_connection ?after = Blocked_create_connection \<and>
         urllib_request_urlopen ?after = Blocked_urlopen \<and>
         http_client_HTTPConnection_connect ?after = Blocked_http_connect \<and>
         map_of (ORIG ?after) ''socket.create_connection'' =
           Some (Original ''socket.create_connection'') \<and>
         (\<not> fst (host_allowed ?after (Some h)) \<longrightarrow>
            fst (socket_create_connection_call ?after (Some h, port) timeout source_address) =
              Raise (NetworkBlockedError
                (''Attempt to connect to '' @ h @ '':'' @ str_int port @
                 '' blocked by python_blackbox'')))"
    if s: "consistent s" "BLOCKED s" and body: "\<forall>t. consistent t \<longrightarrow> consistent (snd (body t))"
  proof -
    from s(1) have "consistent ?inside"
      by (rule allow_temporary_enter_consistent)
    with body have "consistent (snd (body ?inside))"
      by blast
    then have "consistent (block_network (snd (body ?inside)))"
      by (rule consistent_block_network)
    moreover have e: "?after = block_network (snd (body ?inside))"
      using s(2)
      by (simp add: allow_temporary_frame allow_temporary_enter_was_blocked
          allow_temporary_exit_def)
    ultimately have c: "consistent ?after"
      by simp
    have b: "BLOCKED ?after"
      unfolding e by (rule BLOCKED_block_network)
    note hook = consistent_BLOCKED[OF c b] consistent_BLOCKED_hooks[OF c b]
    have "fst (socket_create_connection_call ?after (Some h, port) timeout source_address) =
              Raise (NetworkBlockedError
                (''Attempt to connect to '' @ h @ '':'' @ str_int port @
                 '' blocked by python_blackbox''))"
      if "\<not> fst (host_allowed ?after (Some h))"
      using blocked_create_connection_denied[OF that, of port timeout source_address]
      by (simp add: socket_create_connection_call_def hook(1) str_host_def)
    with c hook(1,2,3,4) show ?thesis
      by blast
  qed
  from on off same pass inside after show ?thesis
    by blast
qed

theorem allow_temporary_restores_enforcement_witness:
  "BLOCKED (snd (allow_temporary (\<lambda>t. (Some ''ConnectionError'', t)) (import_module True True [] []))) \<and>
   fst (allow_temporary (\<lambda>t. (Some ''ConnectionError'', t)) (import_module True True [] [])) =
     Some ''ConnectionError'' \<and>
   \<not> BLOCKED (snd (allow_temporary (\<lambda>t. (None :: string option, add_whitelist ''httpbin.org'' t))
                  (import_module True True [] ''1''))) \<and>
   fst (socket_create_connection_call (snd (allow_temporary_enter (import_module True True [] [])))
          (Some ''example.com'', 443) () ()) =
     Delegate (Original ''socket.create_connection'') ((Some ''example.com'', 443), (), ()) \<and>
   socket_create_connection
     (snd (allow_temporary (\<lambda>t. (Some ''ConnectionError'', t)) (import_module True True [] []))) =
     Blocked_create_connection \<and>
   fst (socket_create_connection_call
          (snd (allow_temporary (\<lambda>t. (Some ''ConnectionError'', t)) (import_module True True [] [])))
          (Some ''example.com'', 443) () ()) =
     Raise (NetworkBlockedError ''Attempt to connect to example.com:443 blocked by python_blackbox'')"
proof -
  let ?on = "import_module True True [] []"
  let ?off = "import_module True True [] ''1''"
  let ?raising = "\<lambda>t :: state. (Some ''ConnectionError'', t)"
  let ?returning = "\<lambda>t. (None :: string option, add_whitelist ''httpbin.org'' t)"
  have on: "BLOCKED ?on"
    by code_simp
  have con: "consistent ?on"
    by code_simp
  have off: "\<not> BLOCKED ?off"
    by code_simp
  have keeps: "\<forall>t. BLOCKED (snd (?returning t)) = BLOCKED t"
    by (simp add: add_whitelist_def log_debug_frame)
  have kc: "\<forall>t. consistent t \<longrightarrow> consistent (snd (?raising t))"
    by simp
  have d: "\<not> fst (host_allowed (snd (allow_temporary ?raising ?on)) (Some ''example.com''))"
    by code_simp
  have p: "''Attempt to connect to '' @ ''example.com'' @ '':'' @ str_int 443 @
          '' blocked by python_blackbox'' = ''Attempt to connect to example.com:443 blocked by python_blackbox''"
    by code_simp
  note inst = allow_temporary_restores_enforcement[of ?on ?raising "(Some ''example.com'', 443)"
      "()" "()" "''example.com''" 443]
  from inst on
  have "BLOCKED (snd (allow_temporary ?raising ?on)) \<and>
        fst (allow_temporary ?raising ?on) = Some ''ConnectionError''"
    by simp
  moreover from allow_temporary_restores_enforcement[of ?off ?returning
      "(Some ''example.com'', 443)" "()" "()" "''example.com''" 443] keeps off
  have "\<not> BLOCKED (snd (allow_temporary ?returning ?off))"
    by blast
  moreover from inst on con
  have "fst (socket_create_connection_call (snd (allow_temporary_enter ?on))
          (Some ''example.com'', 443) () ()) =
     Delegate (Original ''socket.create_connection'') ((Some ''example.com'', 443), (), ())"
    by blast
  moreover from inst on con kc d
  have "socket_create_connection (snd (allow_temporary ?raising ?on)) = Blocked_create_connection \<and>
     fst (socket_create_connection_call (snd (allow_temporary ?raising ?on))
          (Some ''example.com'', 443) () ()) =
     Raise (NetworkBlockedError ''Attempt to connect to example.com:443 blocked by python_blackbox'')"
    unfolding p by blast
  ultimately show ?thesis by blast
qed

subsection \<open>C7: idempotence\<close>

text \<open>
  C7. From every state, a second \<open>block_network\<close> changes nothing of the state the first
  one left (flag, saved originals, bindings and all other fields), and likewise a second
  \<open>allow_network\<close>.
\<close>

theorem block_network_allow_network_idempotent:
  "block_network (block_network s) = block_network s \<and>
   allow_network (allow_network s) = allow_network s"
  by (simp add: block_network_id BLOCKED_block_network allow_network_id not_BLOCKED_allow_network)

subsection \<open>C8: saved originals are present exactly when blocked\<close>

text \<open>
  C8. \<open>orig_invariant\<close> (\<^verbatim>\<open>_ORIG\<close> is non-empty if and only if \<^verbatim>\<open>_BLOCKED\<close>) holds when the
  globals are first bound and when the module body has finished, and each public
  operation keeps it: enabling, disabling, the debug toggle, adding and removing a
  whitelist entry, the guard around any block that keeps it, and so every client program.
\<close>

theorem saved_originals_iff_blocked:
  "orig_invariant (initial have_requests have_sslcontext env_debug) \<and>
   orig_invariant (import_module have_requests have_sslcontext env_debug env_noauto) \<and>
   (orig_invariant s \<longrightarrow>
      orig_invariant (block_network s) \<and>
      orig_invariant (allow_network s) \<and>
      orig_invariant (set_debug b s) \<and>
      orig_invariant (add_whitelist h s) \<and>
      orig_invariant (remove_whitelist h s) \<and>
      ((\<forall>t. orig_invariant t \<longrightarrow> orig_invariant (snd (body t))) \<longrightarrow>
         orig_invariant (snd (allow_temporary body s))) \<and>
      orig_invariant (snd (exec_all cs s)))"
proof -
  have init: "orig_invariant (initial r c d)" for r c d
    by (simp add: orig_invariant_def initial_def)
  have loaded: "orig_invariant (import_module have_requests have_sslcontext env_debug env_noauto)"
    by (simp add: import_module_def Let_def orig_invariant_log_debug orig_invariant_block_network init)
  have guard: "orig_invariant (snd (allow_temporary body s))"
    if "orig_invariant s" and "\<forall>t. orig_invariant t \<longrightarrow> orig_invariant (snd (body t))"
    by (rule allow_temporary_invariant[where I = orig_invariant])
      (use that in \<open>simp_all add: orig_invariant_allow_network orig_invariant_block_network
        orig_invariant_log_debug\<close>)
  from init loaded guard show ?thesis
    by (simp add: orig_invariant_block_network orig_invariant_allow_network
        orig_invariant_set_debug orig_invariant_add_whitelist orig_invariant_remove_whitelist
        exec_all_orig_invariant)
qed

theorem saved_originals_iff_blocked_witness:
  "orig_invariant (initial True True []) \<and>
   orig_invariant (snd (exec_all
     [Block_network, Allow_temporary [Add_whitelist ''httpbin.org'', Raise_error ''ConnectionError''],
      Remove_whitelist ''httpbin.org'', Allow_network]
     (initial True True []))) \<and>
   orig_invariant (snd (allow_temporary (\<lambda>t. (Some ''ConnectionError'', set_debug True t))
     (block_network (initial True True []))))"
proof -
  let ?cs = "[Block_network,
     Allow_temporary [Add_whitelist ''httpbin.org'', Raise_error ''ConnectionError''],
     Remove_whitelist ''httpbin.org'', Allow_network]"
  let ?body = "\<lambda>t. (Some ''ConnectionError'', set_debug True t)"
  have i: "orig_invariant (initial True True [])"
    by code_simp
  have b: "\<forall>t. orig_invariant t \<longrightarrow> orig_invariant (snd (?body t))"
    by (simp add: orig_invariant_def set_debug_def)
  from saved_originals_iff_blocked[of True True "[]" _ "initial True True []" _ _ _ ?cs] i
  have "orig_invariant (snd (exec_all ?cs (initial True True [])))"
    by blast
  moreover from saved_originals_iff_blocked[of True True "[]" _ "initial True True []"] i
  have "orig_invariant (block_network (initial True True []))"
    by blast
  from saved_originals_iff_blocked[of True True "[]" _ "block_network (initial True True [])" _ _ ?body] this b
  have "orig_invariant (snd (allow_temporary ?body (block_network (initial True True []))))"
    by blast
  ultimately show ?thesis using i by blast
qed

subsection \<open>C9: disabling restores what was captured\<close>

text \<open>
  C9. \<open>allow_network\<close> is a total function: the loop has no statement that can raise,
  since the two assignments whose owner may be missing (\<^verbatim>\<open>ssl.SSLContext\<close>, \<^verbatim>\<open>requests\<close>)
  stand behind their guards in \<open>restore\<close>. On a state that is not blocked it returns at
  once and changes nothing. From every blocked state whose \<^verbatim>\<open>_ORIG\<close> is a dictionary (no
  key twice), whatever its keys are: the table is empty and the flag off afterwards; an
  attribute whose path is not a key is left as it was; an attribute whose path is a key,
  and whose owner exists, is bound to the saved value; an attribute whose owner is missing
  stays missing.
\<close>

theorem allow_network_restores_captured:
  "(\<not> BLOCKED s \<longrightarrow> allow_network s = s) \<and>
   (BLOCKED s \<and> distinct (map fst (ORIG s)) \<longrightarrow>
      ORIG (allow_network s) = [] \<and> \<not> BLOCKED (allow_network s) \<and>
      (map_of (ORIG s) k = None \<longrightarrow> getattr_path k (allow_network s) = getattr_path k s) \<and>
      (map_of (ORIG s) k = Some v \<and> getattr_path k s \<noteq> None \<longrightarrow>
         getattr_path k (allow_network s) = Some v) \<and>
      (getattr_path k s = None \<longrightarrow> getattr_path k (allow_network s) = None))"
proof -
  have blocked: "ORIG (allow_network s) = [] \<and> \<not> BLOCKED (allow_network s) \<and>
      (map_of (ORIG s) k = None \<longrightarrow> getattr_path k (allow_network s) = getattr_path k s) \<and>
      (map_of (ORIG s) k = Some v \<and> getattr_path k s \<noteq> None \<longrightarrow>
         getattr_path k (allow_network s) = Some v) \<and>
      (getattr_path k s = None \<longrightarrow> getattr_path k (allow_network s) = None)"
    if b: "BLOCKED s" and d: "distinct (map fst (ORIG s))"
  proof -
    have g: "getattr_path k (allow_network s) =
       (case map_of (ORIG s) k of
          None \<Rightarrow> getattr_path k s
        | Some v \<Rightarrow> if getattr_path k s \<noteq> None then Some v else None)"
      by (simp only: getattr_allow_network[OF b] getattr_fold_restore[OF d])
    have cleared: "ORIG (allow_network s) = [] \<and> \<not> BLOCKED (allow_network s)"
      using b by (simp add: ORIG_allow_network not_BLOCKED_allow_network)
    have skipped: "getattr_path k (allow_network s) = getattr_path k s"
      if "map_of (ORIG s) k = None"
      using that by (simp add: g)
    have restored: "getattr_path k (allow_network s) = Some v"
      if "map_of (ORIG s) k = Some v \<and> getattr_path k s \<noteq> None"
      using that by (simp add: g)
    have missing: "getattr_path k (allow_network s) = None"
      if "getattr_path k s = None"
      using that by (simp add: g split: option.splits)
    from cleared skipped restored missing show ?thesis
      by blast
  qed
  with allow_network_id[of s] show ?thesis
    by blast
qed

theorem allow_network_restores_captured_witness:
  "ORIG (allow_network (import_module False True [] [])) = [] \<and>
   \<not> BLOCKED (allow_network (import_module False True [] [])) \<and>
   getattr_path ''socket.create_connection'' (allow_network (import_module False True [] [])) =
     Some (Original ''socket.create_connection'') \<and>
   getattr_path ''ssl.SSLContext.wrap_socket'' (allow_network (import_module False True [] [])) =
     Some (Original ''ssl.SSLContext.wrap_socket'') \<and>
   getattr_path ''requests.Session.request'' (allow_network (import_module False True [] [])) = None \<and>
   allow_network (initial False True []) = initial False True []"
proof -
  let ?s = "import_module False True [] []"
  have b: "BLOCKED ?s \<and> distinct (map fst (ORIG ?s))"
    by code_simp
  have u: "\<not> BLOCKED (initial False True [])"
    by code_simp
  have c: "map_of (ORIG ?s) ''socket.create_connection'' = Some (Original ''socket.create_connection'') \<and>
      getattr_path ''socket.create_connection'' ?s \<noteq> None"
    by code_simp
  have w: "map_of (ORIG ?s) ''ssl.SSLContext.wrap_socket'' = None \<and>
      getattr_path ''ssl.SSLContext.wrap_socket'' ?s = Some (Original ''ssl.SSLContext.wrap_socket'')"
    by code_simp
  have r: "map_of (ORIG ?s) ''requests.Session.request'' = None \<and>
      getattr_path ''requests.Session.request'' ?s = None"
    by code_simp
  from allow_network_restores_captured[of ?s "''socket.create_connection''"] b c
  have "ORIG (allow_network ?s) = [] \<and> \<not> BLOCKED (allow_network ?s) \<and>
    getattr_path ''socket.create_connection'' (allow_network ?s) = Some (Original ''socket.create_connection'')"
    by blast
  moreover from allow_network_restores_captured[of ?s "''ssl.SSLContext.wrap_socket''"] b w
  have "getattr_path ''ssl.SSLContext.wrap_socket'' (allow_network ?s) =
      Some (Original ''ssl.SSLContext.wrap_socket'')"
    by metis
  moreover from allow_network_restores_captured[of ?s "''requests.Session.request''"] b r
  have "getattr_path ''requests.Session.request'' (allow_network ?s) = None"
    by blast
  moreover from allow_network_restores_captured[of "initial False True []"] u
  have "allow_network (initial False True []) = initial False True []"
    by blast
  ultimately show ?thesis by blast
qed

subsection \<open>C10: the whitelist is not touched\<close>

text \<open>
  C10. \<open>block_network\<close>, \<open>allow_network\<close>, and the entry and exit code of
  \<open>allow_temporary\<close> leave the whitelist as it is. So the whitelist after a guarded block
  is the one the block left (an entry added inside the block is still there), and a
  client program without a call of \<^verbatim>\<open>add_whitelist\<close> or \<^verbatim>\<open>remove_whitelist\<close>, however it
  nests guards and whether or not it raises, ends with the whitelist it started with.
\<close>

theorem lifecycle_keeps_whitelist:
  "WHITELIST (block_network s) = WHITELIST s \<and>
   WHITELIST (allow_network s) = WHITELIST s \<and>
   WHITELIST (snd (allow_temporary_enter s)) = WHITELIST s \<and>
   WHITELIST (allow_temporary_exit was_blocked s) = WHITELIST s \<and>
   WHITELIST (snd (allow_temporary body s)) = WHITELIST (snd (body (snd (allow_temporary_enter s)))) \<and>
   (list_all whitelist_free cs \<longrightarrow> WHITELIST (snd (exec_all cs s)) = WHITELIST s)"
  by (simp add: block_network_frame allow_network_frame allow_temporary_frame exec_whitelist_free)

theorem lifecycle_keeps_whitelist_witness:
  "WHITELIST (snd (exec_all
      [Block_network, Allow_temporary [Allow_network, Raise_error ''ConnectionError''], Allow_network]
      (add_whitelist ''httpbin.org'' (initial True True [])))) = {''httpbin.org''} \<and>
   WHITELIST (snd (allow_temporary (\<lambda>t. (None :: string option, add_whitelist ''httpbin.org'' t))
      (import_module True True [] []))) = {''httpbin.org''}"
proof -
  let ?cs = "[Block_network, Allow_temporary [Allow_network, Raise_error ''ConnectionError''],
     Allow_network]"
  let ?s = "add_whitelist ''httpbin.org'' (initial True True [])"
  let ?body = "\<lambda>t. (None :: string option, add_whitelist ''httpbin.org'' t)"
  let ?t = "import_module True True [] []"
  have f: "list_all whitelist_free ?cs"
    by simp
  have w: "WHITELIST ?s = {''httpbin.org''}"
    by code_simp
  have e: "WHITELIST (snd (?body (snd (allow_temporary_enter ?t)))) = {''httpbin.org''}"
    by code_simp
  from lifecycle_keeps_whitelist[of ?s _ _ ?cs] f
  have "WHITELIST (snd (exec_all ?cs ?s)) = WHITELIST ?s"
    by blast
  with w have "WHITELIST (snd (exec_all ?cs ?s)) = {''httpbin.org''}"
    by (simp only:)
  moreover from lifecycle_keeps_whitelist[of ?t _ ?body]
  have "WHITELIST (snd (allow_temporary ?body ?t)) =
      WHITELIST (snd (?body (snd (allow_temporary_enter ?t))))"
    by blast
  with e have "WHITELIST (snd (allow_temporary ?body ?t)) = {''httpbin.org''}"
    by (simp only:)
  ultimately show ?thesis by blast
qed

end
